theory Spec2Isabelle
  imports Complex_Main
begin

section \<open>Values, errors and signals\<close>

text \<open>
  The indicators of \<^verbatim>\<open>pyphysio/indicators/PeaksDescription.py\<close> work on numpy
  floats. A float is modelled as a real number or the value NaN; the infinities are
  not modelled. Every comparison with NaN is false and arithmetic on NaN gives NaN, as
  in IEEE arithmetic. The comparisons and the differences of the tools are exact; the
  sum and the quotient of numpy's mean are rounded to double precision.
\<close>

datatype npfloat = NaN | Fin real

fun lt :: "npfloat \<Rightarrow> npfloat \<Rightarrow> bool" where
  "lt (Fin a) (Fin b) = (a < b)"
| "lt _ _ = False"

definition gt :: "npfloat \<Rightarrow> npfloat \<Rightarrow> bool" where
  "gt a b = lt b a"

fun fadd :: "npfloat \<Rightarrow> npfloat \<Rightarrow> npfloat" where
  "fadd (Fin a) (Fin b) = Fin (a + b)"
| "fadd _ _ = NaN"

fun fsub :: "npfloat \<Rightarrow> npfloat \<Rightarrow> npfloat" where
  "fsub (Fin a) (Fin b) = Fin (a - b)"
| "fsub _ _ = NaN"

text \<open>Division of floats; numpy gives NaN or an infinity on a zero divisor, and the
  only caller (the slope extractor) replaces that case by NaN itself.\<close>

fun fdiv :: "npfloat \<Rightarrow> npfloat \<Rightarrow> npfloat" where
  "fdiv (Fin a) (Fin b) = (if b = 0 then NaN else Fin (a / b))"
| "fdiv _ _ = NaN"

text \<open>Every exception of the Python code is a value of this type.\<close>

datatype error =
    KeyError string
  | ParameterError string
  | ValueError string
  | IndexError nat
  | AttributeError string
  | ImportError string

type_synonym 'a result = "error + 'a"

definition bind :: "'a result \<Rightarrow> ('a \<Rightarrow> 'b result) \<Rightarrow> 'b result" where
  "bind m f = (case m of Inl e \<Rightarrow> Inl e | Inr x \<Rightarrow> f x)"

text \<open>
  A signal is an ordered sequence of samples with a uniform sampling frequency; sample
  \<open>i\<close> is taken at time \<open>i / sampling_freq\<close>.
\<close>

record signal =
  samples :: "npfloat list"
  sampling_freq :: real

text \<open>The resolved parameters of an algorithm: a Python dict from names to floats.
  \<open>params['k']\<close> raises KeyError when the key is absent.\<close>

type_synonym params = "string \<rightharpoonup> real"

definition getitem :: "params \<Rightarrow> string \<Rightarrow> real result" where
  "getitem params k = (case params k of None \<Rightarrow> Inl (KeyError k) | Some v \<Rightarrow> Inr v)"

section \<open>Peak detection\<close>

text \<open>
  The tool \<^verbatim>\<open>pyphysio.tools.Tools.PeakDetection\<close> is imported by the indicators
  but its module is not part of the sources at hand. The four output sequences:
\<close>

record peakset =
  idx_maxs :: "nat list"
  idx_mins :: "nat list"
  val_maxs :: "npfloat list"
  val_mins :: "npfloat list"

text \<open>The state of the scan: the output so far, the running extrema with their
  positions (\<open>None\<close> while no sample has been taken as a candidate yet, so that any
  number replaces it and nothing is below or above it), and the direction flag.\<close>

record scan_state =
  out :: peakset
  running_max :: "(npfloat \<times> nat) option"
  running_min :: "(npfloat \<times> nat) option"
  seeking_max :: bool

definition no_peaks :: peakset where
  "no_peaks = \<lparr>idx_maxs = [], idx_mins = [], val_maxs = [], val_mins = []\<rparr>"

definition scan_init :: scan_state where
  "scan_init = \<lparr>out = no_peaks, running_max = None, running_min = None, seeking_max = True\<rparr>"

definition update_max :: "npfloat \<Rightarrow> nat \<Rightarrow> (npfloat \<times> nat) option \<Rightarrow> (npfloat \<times> nat) option" where
  "update_max v i r =
     (case r of
        None \<Rightarrow> (case v of NaN \<Rightarrow> None | Fin x \<Rightarrow> Some (v, i))
      | Some (mx, p) \<Rightarrow> if gt v mx then Some (v, i) else Some (mx, p))"

definition update_min :: "npfloat \<Rightarrow> nat \<Rightarrow> (npfloat \<times> nat) option \<Rightarrow> (npfloat \<times> nat) option" where
  "update_min v i r =
     (case r of
        None \<Rightarrow> (case v of NaN \<Rightarrow> None | Fin x \<Rightarrow> Some (v, i))
      | Some (mn, q) \<Rightarrow> if lt v mn then Some (v, i) else Some (mn, q))"

definition emit_max :: "nat \<Rightarrow> npfloat \<Rightarrow> peakset \<Rightarrow> peakset" where
  "emit_max p mx ps = ps\<lparr>idx_maxs := idx_maxs ps @ [p], val_maxs := val_maxs ps @ [mx]\<rparr>"

definition emit_min :: "nat \<Rightarrow> npfloat \<Rightarrow> peakset \<Rightarrow> peakset" where
  "emit_min q mn ps = ps\<lparr>idx_mins := idx_mins ps @ [q], val_mins := val_mins ps @ [mn]\<rparr>"

text \<open>One sample \<open>v\<close> at index \<open>i\<close>: both running extrema are updated first, then at
  most one extremum is emitted.\<close>

definition scan_step :: "real \<Rightarrow> nat \<Rightarrow> npfloat \<Rightarrow> scan_state \<Rightarrow> scan_state" where
  "scan_step delta i v s =
     (let rmax = update_max v i (running_max s);
          rmin = update_min v i (running_min s);
          s1 = s\<lparr>running_max := rmax, running_min := rmin\<rparr>
      in if seeking_max s then
           (case rmax of
              None \<Rightarrow> s1
            | Some (mx, p) \<Rightarrow>
                if lt v (fsub mx (Fin delta))
                then s1\<lparr>out := emit_max p mx (out s), running_min := Some (v, i),
                        seeking_max := False\<rparr>
                else s1)
         else
           (case rmin of
              None \<Rightarrow> s1
            | Some (mn, q) \<Rightarrow>
                if gt v (fadd mn (Fin delta))
                then s1\<lparr>out := emit_min q mn (out s), running_max := Some (v, i),
                        seeking_max := True\<rparr>
                else s1))"

fun scan :: "real \<Rightarrow> nat \<Rightarrow> npfloat list \<Rightarrow> scan_state \<Rightarrow> scan_state" where
  "scan delta i [] s = s"
| "scan delta i (v # vs) s = scan delta (Suc i) vs (scan_step delta i v s)"

text \<open>
  Modelled from the spec: \<^verbatim>\<open>PeakDetection\<close> (spec 4.3), whose module is missing.
  The tool validates \<open>delta > 0\<close> and raises ParameterError before any scan; a signal
  shorter than two samples gives four empty sequences; otherwise the signal is scanned
  once from left to right. The spec does not give the initial running extrema: here
  there is none until the first number is read.
\<close>

definition PeakDetection :: "real \<Rightarrow> signal \<Rightarrow> peakset result" where
  "PeakDetection delta sig =
     (if \<not> delta > 0 then Inl (ParameterError ''delta'')
      else if length (samples sig) < 2 then Inr no_peaks
      else Inr (out (scan delta 0 (samples sig) scan_init)))"

section \<open>NaN-ignoring reductions\<close>

text \<open>
  \<^verbatim>\<open>numpy.nanmax\<close>, \<^verbatim>\<open>nanmin\<close> and \<^verbatim>\<open>nanmean\<close> reduce the entries
  that are not NaN. On an empty array nanmax and nanmin raise ValueError; when every
  entry is NaN all three return NaN (numpy then issues a RuntimeWarning through the
  warnings module, which is not a report of the indicator and is not modelled).
\<close>

fun non_nan :: "npfloat list \<Rightarrow> real list" where
  "non_nan [] = []"
| "non_nan (NaN # xs) = non_nan xs"
| "non_nan (Fin x # xs) = x # non_nan xs"

definition nanmax :: "npfloat list \<Rightarrow> npfloat result" where
  "nanmax xs =
     (if xs = [] then Inl (ValueError ''zero-size array'')
      else case non_nan xs of [] \<Rightarrow> Inr NaN | y # ys \<Rightarrow> Inr (Fin (fold max ys y)))"

definition nanmin :: "npfloat list \<Rightarrow> npfloat result" where
  "nanmin xs =
     (if xs = [] then Inl (ValueError ''zero-size array'')
      else case non_nan xs of [] \<Rightarrow> Inr NaN | y # ys \<Rightarrow> Inr (Fin (fold min ys y)))"

subsection \<open>Double precision\<close>

text \<open>
  Rounding to the nearest double, ties to the even significand (IEEE 754 binary64: 53
  bits, least exponent of a unit in the last place \<open>-1074\<close>). \<open>ilog2 a\<close> is the
  exponent \<open>e\<close> with \<open>2^e \<le> a < 2^(e+1)\<close> for \<open>a > 0\<close>. A result beyond the
  largest double, where numpy gives an infinity, has no counterpart here: \<open>rnd\<close>
  rounds as if the exponent were unbounded above.
\<close>

fun bit_length :: "nat \<Rightarrow> nat" where
  "bit_length n = (if n = 0 then 0 else Suc (bit_length (n div 2)))"

declare bit_length.simps [simp del]

definition pow2 :: "int \<Rightarrow> real" where
  "pow2 e = (if 0 \<le> e then 2 ^ nat e else 1 / 2 ^ nat (- e))"

definition ilog2 :: "real \<Rightarrow> int" where
  "ilog2 a = (if 1 \<le> a then int (bit_length (nat \<lfloor>a\<rfloor>)) - 1
              else - int (bit_length (nat (\<lceil>1 / a\<rceil> - 1))))"

definition round_even :: "real \<Rightarrow> int" where
  "round_even q =
     (let f = \<lfloor>q\<rfloor>; r = q - of_int f
      in if r < 1/2 then f else if 1/2 < r then f + 1 else if even f then f else f + 1)"

definition ulp_exp :: "real \<Rightarrow> int" where
  "ulp_exp x = max (ilog2 \<bar>x\<bar> - 52) (- 1074)"

definition rnd :: "real \<Rightarrow> real" where
  "rnd x =
     (if x = 0 then 0
      else of_int (round_even (x / pow2 (ulp_exp x))) * pow2 (ulp_exp x))"

definition radd :: "real \<Rightarrow> real \<Rightarrow> real" where
  "radd a b = rnd (a + b)"

text \<open>
  The sum of a double array as \<^verbatim>\<open>numpy.add.reduce\<close> computes it since numpy 1.9
  (pairwise summation): fewer than 8 entries are added from left to right starting
  from 0; up to 128 entries are added into 8 running sums, entry \<open>i\<close> into sum
  \<open>i mod 8\<close>, which are then added in pairs, and the entries left over are added one
  by one; a longer array is cut in two near the middle, at a multiple of 8. Every
  addition is rounded.
\<close>

fun seq_sum :: "real \<Rightarrow> real list \<Rightarrow> real" where
  "seq_sum res [] = res"
| "seq_sum res (x # xs) = seq_sum (radd res x) xs"

fun add_groups :: "nat \<Rightarrow> real list \<Rightarrow> real list \<Rightarrow> real list" where
  "add_groups 0 r xs = r"
| "add_groups (Suc g) r xs = add_groups g (map2 radd r (take 8 xs)) (drop 8 xs)"

definition unrolled_sum :: "real list \<Rightarrow> real" where
  "unrolled_sum xs =
     (let g = (length xs - 8) div 8;
          r = add_groups g (take 8 xs) (drop 8 xs);
          res = radd (radd (radd (r ! 0) (r ! 1)) (radd (r ! 2) (r ! 3)))
                     (radd (radd (r ! 4) (r ! 5)) (radd (r ! 6) (r ! 7)))
      in seq_sum res (drop (8 + 8 * g) xs))"

function pairwise_sum :: "real list \<Rightarrow> real" where
  "pairwise_sum xs =
     (if length xs < 8 then seq_sum 0 xs
      else if length xs \<le> 128 then unrolled_sum xs
      else radd (pairwise_sum (take (length xs div 2 - length xs div 2 mod 8) xs))
                (pairwise_sum (drop (length xs div 2 - length xs div 2 mod 8) xs)))"
  by pat_completeness auto
termination
  by (relation "measure length") auto

declare pairwise_sum.simps [simp del]

text \<open>
  \<^verbatim>\<open>numpy.nanmean\<close> replaces every NaN by 0, sums the array, and divides the sum by
  the number of entries that are not NaN, in double precision; with no such entry the
  quotient is \<open>0 / 0\<close>, NaN.
\<close>

definition nan_to_zero :: "npfloat \<Rightarrow> real" where
  "nan_to_zero v = (case v of NaN \<Rightarrow> 0 | Fin x \<Rightarrow> x)"

definition nanmean :: "npfloat list \<Rightarrow> npfloat result" where
  "nanmean xs =
     (let cnt = length (non_nan xs);
          tot = pairwise_sum (map nan_to_zero xs)
      in if cnt = 0 then Inr NaN else Inr (Fin (rnd (tot / real cnt))))"

text \<open>The amplitudes for which no double-precision sum of theirs can overflow: their
  magnitudes add up to at most \<open>2^1023\<close>.\<close>

definition in_double_range :: "npfloat list \<Rightarrow> bool" where
  "in_double_range xs \<longleftrightarrow> sum_list (map (\<lambda>v. \<bar>nan_to_zero v\<bar>) xs) \<le> 2 ^ 1023"

section \<open>The amplitude indicators\<close>

text \<open>
  An algorithm returns its value together with the messages it passed to
  \<^verbatim>\<open>cls.warn\<close>, in order. \<^verbatim>\<open>PeaksNum\<close> returns a Python int, modelled as the float
  of the same value.
\<close>

type_synonym outcome = "npfloat \<times> string list"

text \<open>The four algorithms, with the detection tool as a parameter: each one calls
  \<^verbatim>\<open>_PeakDetection(delta=delta)(signal)\<close> and works on what it returns.\<close>

type_synonym detection = "real \<Rightarrow> signal \<Rightarrow> peakset result"

definition PeaksMax_algorithm_with :: "detection \<Rightarrow> signal \<Rightarrow> params \<Rightarrow> outcome result" where
  "PeaksMax_algorithm_with detection sig params =
     bind (getitem params ''delta'') (\<lambda>delta.
     bind (detection delta sig) (\<lambda>ps.
       if length (idx_maxs ps) = 0 then Inr (NaN, [''No peak found''])
       else bind (nanmax (val_maxs ps)) (\<lambda>r. Inr (r, []))))"

definition PeaksMin_algorithm_with :: "detection \<Rightarrow> signal \<Rightarrow> params \<Rightarrow> outcome result" where
  "PeaksMin_algorithm_with detection sig params =
     bind (getitem params ''delta'') (\<lambda>delta.
     bind (detection delta sig) (\<lambda>ps.
       if length (idx_maxs ps) = 0 then Inr (NaN, [''No peak found''])
       else bind (nanmin (val_maxs ps)) (\<lambda>r. Inr (r, []))))"

definition PeaksMean_algorithm_with :: "detection \<Rightarrow> signal \<Rightarrow> params \<Rightarrow> outcome result" where
  "PeaksMean_algorithm_with detection sig params =
     bind (getitem params ''delta'') (\<lambda>delta.
     bind (detection delta sig) (\<lambda>ps.
       if length (idx_maxs ps) = 0 then Inr (NaN, [''No peak found''])
       else bind (nanmean (val_maxs ps)) (\<lambda>r. Inr (r, []))))"

definition PeaksNum_algorithm_with :: "detection \<Rightarrow> signal \<Rightarrow> params \<Rightarrow> outcome result" where
  "PeaksNum_algorithm_with detection sig params =
     bind (getitem params ''delta'') (\<lambda>delta.
     bind (detection delta sig) (\<lambda>ps.
       if length (idx_maxs ps) = 0 then Inr (NaN, [''No peak found''])
       else Inr (Fin (real (length (idx_maxs ps))), [])))"

text \<open>The algorithms of the classes, on the detection tool of the package.\<close>

definition PeaksMax_algorithm :: "signal \<Rightarrow> params \<Rightarrow> outcome result" where
  "PeaksMax_algorithm = PeaksMax_algorithm_with PeakDetection"

definition PeaksMin_algorithm :: "signal \<Rightarrow> params \<Rightarrow> outcome result" where
  "PeaksMin_algorithm = PeaksMin_algorithm_with PeakDetection"

definition PeaksMean_algorithm :: "signal \<Rightarrow> params \<Rightarrow> outcome result" where
  "PeaksMean_algorithm = PeaksMean_algorithm_with PeakDetection"

definition PeaksNum_algorithm :: "signal \<Rightarrow> params \<Rightarrow> outcome result" where
  "PeaksNum_algorithm = PeaksNum_algorithm_with PeakDetection"

section \<open>Boundary selection, durations and slopes\<close>

text \<open>
  The tools \<^verbatim>\<open>PeakSelection\<close>, \<^verbatim>\<open>Durations\<close> and \<^verbatim>\<open>Slopes\<close> come from the
  same missing module \<^verbatim>\<open>pyphysio.tools.Tools\<close>. A window given in seconds is
  turned into a number of samples with the sampling frequency.
\<close>

definition to_samples :: "real \<Rightarrow> signal \<Rightarrow> nat" where
  "to_samples t sig = nat \<lfloor>t * sampling_freq sig\<rfloor>"

definition time_of :: "signal \<Rightarrow> nat \<Rightarrow> real" where
  "time_of sig i = real i / sampling_freq sig"

definition sample_at :: "signal \<Rightarrow> nat \<Rightarrow> npfloat result" where
  "sample_at sig i =
     (if i < length (samples sig) then Inr (samples sig ! i) else Inl (IndexError i))"

text \<open>Walking away from the peak while the amplitude falls, for at most \<open>n\<close> steps:
  the walk ends on the trough nearest to the peak, or on the edge of the window.\<close>

fun descend_left :: "npfloat list \<Rightarrow> nat \<Rightarrow> nat \<Rightarrow> nat" where
  "descend_left xs 0 i = i"
| "descend_left xs (Suc n) i =
     (case i of
        0 \<Rightarrow> 0
      | Suc j \<Rightarrow> if lt (xs ! j) (xs ! i) then descend_left xs n j else i)"

fun descend_right :: "npfloat list \<Rightarrow> nat \<Rightarrow> nat \<Rightarrow> nat" where
  "descend_right xs 0 i = i"
| "descend_right xs (Suc n) i =
     (if lt (xs ! Suc i) (xs ! i) then descend_right xs n (Suc i) else i)"

text \<open>The interval of one peak \<open>p\<close>: the start is searched in \<open>[p - pre, p]\<close> clipped
  to \<open>[0, p]\<close>, the stop in \<open>[p, p + post]\<close> clipped to \<open>[p, n - 1]\<close>. A peak whose
  window is empty, or from which the amplitude does not fall on one side, has no
  interval.\<close>

definition select_one :: "npfloat list \<Rightarrow> nat \<Rightarrow> nat \<Rightarrow> nat \<Rightarrow> (nat \<times> nat) option" where
  "select_one xs pre post p =
     (if length xs \<le> p then None
      else let start = descend_left xs (min pre p) p;
               stop = descend_right xs (min post (length xs - 1 - p)) p
           in if start = p \<or> stop = p then None else Some (start, stop))"

text \<open>
  Modelled from the spec: \<^verbatim>\<open>PeakSelection\<close> (spec 4.4), whose module is missing.
  A peak without an interval is dropped, so the two outputs can be shorter than the
  sequence of peaks. The spec leaves the choice of the trough open; this is its
  "nearest trough to the peak within the clipped window". The indicators call the tool
  with the keywords \<^verbatim>\<open>win_pre\<close>, \<^verbatim>\<open>win_post\<close> in the duration classes and
  \<^verbatim>\<open>pre_max\<close>, \<^verbatim>\<open>post_max\<close> in the slope classes; the arguments are positional
  here.
\<close>

definition PeakSelection :: "nat list \<Rightarrow> real \<Rightarrow> real \<Rightarrow> signal \<Rightarrow> nat list \<times> nat list" where
  "PeakSelection idx_max pre_max post_max sig =
     (let intervals = List.map_filter
            (select_one (samples sig) (to_samples pre_max sig) (to_samples post_max sig))
            idx_max
      in (map fst intervals, map snd intervals))"

text \<open>
  Modelled from the spec: \<^verbatim>\<open>Durations\<close> (spec 4.5), whose module is missing. One
  entry per pair \<open>(start, stop)\<close>, in order: the stop time minus the start time, NaN
  when the stop is before the start.
\<close>

definition Durations :: "nat list \<Rightarrow> nat list \<Rightarrow> signal \<Rightarrow> npfloat list" where
  "Durations starts stops sig =
     map (\<lambda>(s, e). if time_of sig e < time_of sig s then NaN
                    else Fin (time_of sig e - time_of sig s))
         (zip starts stops)"

definition slope_one :: "signal \<Rightarrow> nat \<times> nat \<Rightarrow> npfloat result" where
  "slope_one sig sp =
     (case sp of (start, peak) \<Rightarrow>
        bind (sample_at sig peak) (\<lambda>a_peak.
        bind (sample_at sig start) (\<lambda>a_start.
          let dt = time_of sig peak - time_of sig start
          in if dt = 0 then Inr NaN else Inr (fdiv (fsub a_peak a_start) (Fin dt)))))"

fun mapM :: "('a \<Rightarrow> 'b result) \<Rightarrow> 'a list \<Rightarrow> 'b list result" where
  "mapM f [] = Inr []"
| "mapM f (x # xs) = bind (f x) (\<lambda>y. bind (mapM f xs) (\<lambda>ys. Inr (y # ys)))"

text \<open>
  Modelled from the spec: \<^verbatim>\<open>Slopes\<close> (spec 4.6), whose module is missing. Entry
  \<open>k\<close> is computed from \<open>starts[k]\<close> and \<open>peaks[k]\<close>: the amplitude difference over the
  time difference, NaN when the time difference is zero.
\<close>

definition Slopes :: "nat list \<Rightarrow> nat list \<Rightarrow> signal \<Rightarrow> npfloat list result" where
  "Slopes starts peaks sig = mapM (slope_one sig) (zip starts peaks)"

section \<open>The interval indicators\<close>

definition DurationMin_algorithm :: "signal \<Rightarrow> params \<Rightarrow> outcome result" where
  "DurationMin_algorithm sig params =
     bind (getitem params ''delta'') (\<lambda>delta.
     bind (getitem params ''win_pre'') (\<lambda>win_pre.
     bind (getitem params ''win_post'') (\<lambda>win_post.
     bind (PeakDetection delta sig) (\<lambda>ps.
       if length (idx_maxs ps) = 0 then Inr (NaN, [''No peaks found''])
       else case PeakSelection (idx_maxs ps) win_pre win_post sig of
         (idxs_start, idxs_stop) \<Rightarrow>
           if length idxs_start = 0
           then Inr (NaN, [''Unable to detect the start of the peaks''])
           else bind (nanmin (Durations idxs_start idxs_stop sig)) (\<lambda>r. Inr (r, []))))))"

definition DurationMax_algorithm :: "signal \<Rightarrow> params \<Rightarrow> outcome result" where
  "DurationMax_algorithm sig params =
     bind (getitem params ''delta'') (\<lambda>delta.
     bind (getitem params ''win_pre'') (\<lambda>win_pre.
     bind (getitem params ''win_post'') (\<lambda>win_post.
     bind (PeakDetection delta sig) (\<lambda>ps.
       if length (idx_maxs ps) = 0 then Inr (NaN, [''No peaks found''])
       else case PeakSelection (idx_maxs ps) win_pre win_post sig of
         (idxs_start, idxs_stop) \<Rightarrow>
           if length idxs_start = 0
           then Inr (NaN, [''Unable to detect the start of the peaks''])
           else bind (nanmax (Durations idxs_start idxs_stop sig)) (\<lambda>r. Inr (r, []))))))"

definition DurationMean_algorithm :: "signal \<Rightarrow> params \<Rightarrow> outcome result" where
  "DurationMean_algorithm sig params =
     bind (getitem params ''delta'') (\<lambda>delta.
     bind (getitem params ''win_pre'') (\<lambda>win_pre.
     bind (getitem params ''win_post'') (\<lambda>win_post.
     bind (PeakDetection delta sig) (\<lambda>ps.
       if length (idx_maxs ps) = 0 then Inr (NaN, [''No peaks found''])
       else case PeakSelection (idx_maxs ps) win_pre win_post sig of
         (idxs_start, idxs_stop) \<Rightarrow>
           if length idxs_start = 0
           then Inr (NaN, [''Unable to detect the start of the peaks''])
           else bind (nanmean (Durations idxs_start idxs_stop sig)) (\<lambda>r. Inr (r, []))))))"

text \<open>\<^verbatim>\<open>SlopeMin\<close> reads \<^verbatim>\<open>win_pre\<close> and \<^verbatim>\<open>win_post\<close> like the duration
  classes; \<^verbatim>\<open>SlopeMax\<close> and \<^verbatim>\<open>SlopeMean\<close> read \<^verbatim>\<open>pre_max\<close> and
  \<^verbatim>\<open>post_max\<close>. All three pass the whole \<^verbatim>\<open>idx_maxs\<close> to \<^verbatim>\<open>Slopes\<close>.\<close>

definition SlopeMin_algorithm :: "signal \<Rightarrow> params \<Rightarrow> outcome result" where
  "SlopeMin_algorithm sig params =
     bind (getitem params ''delta'') (\<lambda>delta.
     bind (getitem params ''win_pre'') (\<lambda>pre_max.
     bind (getitem params ''win_post'') (\<lambda>post_max.
     bind (PeakDetection delta sig) (\<lambda>ps.
       if length (idx_maxs ps) = 0 then Inr (NaN, [''No peaks found''])
       else case PeakSelection (idx_maxs ps) pre_max post_max sig of
         (idxs_start, idxs_stop) \<Rightarrow>
           if length idxs_start = 0
           then Inr (NaN, [''Unable to detect the start of the peaks''])
           else bind (Slopes idxs_start (idx_maxs ps) sig) (\<lambda>slopes.
                bind (nanmin slopes) (\<lambda>r. Inr (r, [])))))))"

definition SlopeMax_algorithm :: "signal \<Rightarrow> params \<Rightarrow> outcome result" where
  "SlopeMax_algorithm sig params =
     bind (getitem params ''delta'') (\<lambda>delta.
     bind (getitem params ''pre_max'') (\<lambda>pre_max.
     bind (getitem params ''post_max'') (\<lambda>post_max.
     bind (PeakDetection delta sig) (\<lambda>ps.
       if length (idx_maxs ps) = 0 then Inr (NaN, [''No peaks found''])
       else case PeakSelection (idx_maxs ps) pre_max post_max sig of
         (idxs_start, idxs_stop) \<Rightarrow>
           if length idxs_start = 0
           then Inr (NaN, [''Unable to detect the start of the peaks''])
           else bind (Slopes idxs_start (idx_maxs ps) sig) (\<lambda>slopes.
                bind (nanmax slopes) (\<lambda>r. Inr (r, [])))))))"

definition SlopeMean_algorithm :: "signal \<Rightarrow> params \<Rightarrow> outcome result" where
  "SlopeMean_algorithm sig params =
     bind (getitem params ''delta'') (\<lambda>delta.
     bind (getitem params ''pre_max'') (\<lambda>pre_max.
     bind (getitem params ''post_max'') (\<lambda>post_max.
     bind (PeakDetection delta sig) (\<lambda>ps.
       if length (idx_maxs ps) = 0 then Inr (NaN, [''No peaks found''])
       else case PeakSelection (idx_maxs ps) pre_max post_max sig of
         (idxs_start, idxs_stop) \<Rightarrow>
           if length idxs_start = 0
           then Inr (NaN, [''Unable to detect the start of the peaks''])
           else bind (Slopes idxs_start (idx_maxs ps) sig) (\<lambda>slopes.
                bind (nanmean slopes) (\<lambda>r. Inr (r, [])))))))"

section \<open>Parameter descriptors, construction and compute\<close>

text \<open>
  \<^verbatim>\<open>_Par(level, type, description, default, constraint)\<close>: the class
  \<^verbatim>\<open>pyphysio.Parameters.Parameter\<close> is missing, the two descriptor tables are in
  the source. Requirement level 2 marks a parameter that must be supplied.
\<close>

datatype pytype = PyFloat

record Parameter =
  requirement_level :: nat
  pytype :: pytype
  description :: string
  default_value :: real
  constraint :: "real \<Rightarrow> bool"

definition Peaks_params_descriptors :: "(string \<times> Parameter) list" where
  "Peaks_params_descriptors =
     [(''delta'', \<lparr>requirement_level = 2, pytype = PyFloat,
         description = ''Amplitude of the minimum peak (>0)'',
         default_value = 0, constraint = (\<lambda>x. x > 0)\<rparr>)]"

definition PeaksInterval_params_descriptors :: "(string \<times> Parameter) list" where
  "PeaksInterval_params_descriptors =
     [(''delta'', \<lparr>requirement_level = 2, pytype = PyFloat,
         description = ''Amplitude of the minimum peak'',
         default_value = 0, constraint = (\<lambda>x. x > 0)\<rparr>),
      (''pre_max'', \<lparr>requirement_level = 0, pytype = PyFloat,
         description = ''Duration (in seconds) of interval before the peak that is considered to find the start of the peak (>0)'',
         default_value = 1, constraint = (\<lambda>x. x > 0)\<rparr>),
      (''post_max'', \<lparr>requirement_level = 0, pytype = PyFloat,
         description = ''Duration (in seconds) of interval after the peak that is considered to find the start of the peak (>0)'',
         default_value = 1, constraint = (\<lambda>x. x > 0)\<rparr>)]"

text \<open>
  Modelled from the spec: the resolution of one parameter (spec 4.1), whose class is
  missing. It fails with ParameterError when a required value is absent or when the
  validity predicate rejects the value; an absent optional value takes the default.
  Values are floats here, so the failure on a wrong type has no counterpart.
\<close>

definition resolve :: "string \<Rightarrow> Parameter \<Rightarrow> real option \<Rightarrow> real result" where
  "resolve name d provided =
     (case provided of
        None \<Rightarrow>
          if requirement_level d = 2 then Inl (ParameterError name)
          else if constraint d (default_value d) then Inr (default_value d)
          else Inl (ParameterError name)
      | Some v \<Rightarrow> if constraint d v then Inr v else Inl (ParameterError name))"

fun resolve_all :: "(string \<times> Parameter) list \<Rightarrow> (string \<rightharpoonup> real) \<Rightarrow> params result" where
  "resolve_all [] kwargs = Inr Map.empty"
| "resolve_all ((name, d) # ds) kwargs =
     bind (resolve name d (kwargs name)) (\<lambda>v.
     bind (resolve_all ds kwargs) (\<lambda>m. Inr (m(name \<mapsto> v))))"

text \<open>The concrete indicator classes of the module.\<close>

datatype indicator =
    PeaksMax | PeaksMin | PeaksMean | PeaksNum
  | DurationMin | DurationMax | DurationMean
  | SlopeMin | SlopeMax | SlopeMean

fun params_descriptors :: "indicator \<Rightarrow> (string \<times> Parameter) list" where
  "params_descriptors PeaksMax = Peaks_params_descriptors"
| "params_descriptors PeaksMin = Peaks_params_descriptors"
| "params_descriptors PeaksMean = Peaks_params_descriptors"
| "params_descriptors PeaksNum = Peaks_params_descriptors"
| "params_descriptors _ = PeaksInterval_params_descriptors"

fun algorithm :: "indicator \<Rightarrow> signal \<Rightarrow> params \<Rightarrow> outcome result" where
  "algorithm PeaksMax = PeaksMax_algorithm"
| "algorithm PeaksMin = PeaksMin_algorithm"
| "algorithm PeaksMean = PeaksMean_algorithm"
| "algorithm PeaksNum = PeaksNum_algorithm"
| "algorithm DurationMin = DurationMin_algorithm"
| "algorithm DurationMax = DurationMax_algorithm"
| "algorithm DurationMean = DurationMean_algorithm"
| "algorithm SlopeMin = SlopeMin_algorithm"
| "algorithm SlopeMax = SlopeMax_algorithm"
| "algorithm SlopeMean = SlopeMean_algorithm"

text \<open>
  Modelled from the spec: construction and \<^verbatim>\<open>compute\<close> of the base class
  \<^verbatim>\<open>pyphysio.BaseIndicator.Indicator\<close> (spec 4.2), which is missing. Construction
  resolves every declared parameter against the supplied keywords and fails on the
  first invalid one; compute on a fresh indicator (nothing cached) runs the algorithm
  on the resolved parameters.
\<close>

definition construct :: "indicator \<Rightarrow> (string \<rightharpoonup> real) \<Rightarrow> params result" where
  "construct kind kwargs = resolve_all (params_descriptors kind) kwargs"

definition compute :: "indicator \<Rightarrow> (string \<rightharpoonup> real) \<Rightarrow> signal \<Rightarrow> outcome result" where
  "compute kind kwargs sig = bind (construct kind kwargs) (algorithm kind sig)"

section \<open>The package \<^verbatim>\<open>pyHRV\<close> and its imports\<close>

text \<open>
  A module after its body has run: the names bound at its top level, and its
  \<^verbatim>\<open>__all__\<close> when it binds one.
\<close>

record module =
  names :: "string list"
  all_list :: "string list option"

text \<open>The names that \<^verbatim>\<open>pyHRV/Files.py\<close> binds, in order (imports, \<^verbatim>\<open>__all__\<close>,
  then the five functions), and its \<^verbatim>\<open>__all__\<close>.\<close>

definition Files_names :: "string list" where
  "Files_names =
     [''np'', ''pd'', ''DataSeries'', ''peak_detection'', ''Sett'', ''__all__'',
      ''load_data_series'', ''save_data_series'', ''load_rr_data_series'',
      ''load_rr_from_ecg'', ''load_rr_from_bvp'']"

definition Files_all :: "string list" where
  "Files_all = [''load_rr_data_series'', ''save_rr_data_series'']"

text \<open>Running \<^verbatim>\<open>Files.py\<close>: its own imports and the default arguments of its
  functions are evaluated first; they depend on modules that are not at hand, so their
  outcome \<open>prelude\<close> is a parameter.\<close>

definition Files_body :: "unit result \<Rightarrow> module result" where
  "Files_body prelude =
     bind prelude (\<lambda>_. Inr \<lparr>names = Files_names, all_list = Some Files_all\<rparr>)"

text \<open>\<^verbatim>\<open>m.__all__\<close>, \<^verbatim>\<open>from m import *\<close> and \<^verbatim>\<open>from m import a, b\<close>: a star
  import reads every name of \<^verbatim>\<open>__all__\<close> as an attribute of the module and raises
  AttributeError on the first that is not bound; without \<^verbatim>\<open>__all__\<close> it takes the
  names that do not start with an underscore. An import by name raises ImportError on
  the first name that is not bound.\<close>

definition getattr_all :: "module \<Rightarrow> string list result" where
  "getattr_all m =
     (case all_list m of None \<Rightarrow> Inl (AttributeError ''__all__'') | Some ns \<Rightarrow> Inr ns)"

definition import_star :: "module \<Rightarrow> string list result" where
  "import_star m =
     (case all_list m of
        None \<Rightarrow> Inr (filter (\<lambda>n. take 1 n \<noteq> ''_'') (names m))
      | Some ns \<Rightarrow>
          (case find (\<lambda>n. n \<notin> set (names m)) ns of
             Some n \<Rightarrow> Inl (AttributeError n)
           | None \<Rightarrow> Inr ns))"

definition import_from :: "module \<Rightarrow> string list \<Rightarrow> string list result" where
  "import_from m ns =
     (case find (\<lambda>n. n \<notin> set (names m)) ns of
        Some n \<Rightarrow> Inl (ImportError n)
      | None \<Rightarrow> Inr ns)"

text \<open>
  The body of \<^verbatim>\<open>pyHRV/__init__.py\<close>, statement by statement. The modules
  \<^verbatim>\<open>Filters\<close>, \<^verbatim>\<open>PyHRVSettings\<close>, \<^verbatim>\<open>indexes\<close>, \<^verbatim>\<open>windowing\<close> and
  \<^verbatim>\<open>DataSeries\<close> are not at hand: \<open>others\<close> gives the outcome of importing each.
  The result is the list of names the package binds.
\<close>

definition pyHRV_init :: "unit result \<Rightarrow> (string \<Rightarrow> module result) \<Rightarrow> string list result" where
  "pyHRV_init prelude others =
     bind (Files_body prelude) (\<lambda>Files.
     bind (others ''Filters'') (\<lambda>Filters.
     bind (others ''PyHRVSettings'') (\<lambda>PyHRVSettings.
     bind (others ''indexes'') (\<lambda>indexes.
     bind (others ''windowing'') (\<lambda>windowing.
     bind (others ''DataSeries'') (\<lambda>Ds.
     bind (getattr_all Ds) (\<lambda>all_Ds.
     bind (getattr_all Filters) (\<lambda>all_Filters.
     bind (getattr_all Files) (\<lambda>all_Files.
     bind (getattr_all indexes) (\<lambda>all_indexes.
     bind (getattr_all windowing) (\<lambda>all_windowing.
     bind (import_star Ds) (\<lambda>n1.
     bind (import_star Files) (\<lambda>n2.
     bind (import_star PyHRVSettings) (\<lambda>n3.
     bind (import_star indexes) (\<lambda>n4.
     bind (import_star windowing) (\<lambda>n5.
     bind (import_star Filters) (\<lambda>n6.
       Inr ([''__author__'', ''Files'', ''Filters'', ''PyHRVSettings'', ''indexes'',
             ''windowing'', ''__all__'']
            @ n1 @ n2 @ n3 @ n4 @ n5 @ n6))))))))))))))))))"

text \<open>The imports at the top of \<^verbatim>\<open>pyHRV/galaxy/GalaxyFilter.py\<close>: the first one
  imports the package, the second one takes two names from \<^verbatim>\<open>pyHRV.Files\<close>.\<close>

definition GalaxyFilter_imports :: "unit result \<Rightarrow> (string \<Rightarrow> module result) \<Rightarrow> string list result" where
  "GalaxyFilter_imports prelude others =
     bind (pyHRV_init prelude others) (\<lambda>_.
     bind (others ''pyHRV.galaxy.ParamExecClass'') (\<lambda>m.
     bind (import_from m [''ParamExecClass'']) (\<lambda>_.
     bind (Files_body prelude) (\<lambda>Files.
       import_from Files [''load_rr'', ''save_data_series'']))))"

section \<open>Auxiliary notions for the proofs\<close>

text \<open>
  The invariant of the scan before the sample at index \<open>i\<close> is read. The emitted
  indices, maxima and minima taken in turn, increase strictly; while a maximum is
  sought as many minima as maxima have been emitted and every emitted index is below
  the position of the running maximum; while a minimum is sought one more maximum has
  been emitted and every emitted index is below the position of the running minimum.
\<close>

definition scan_inv :: "nat \<Rightarrow> scan_state \<Rightarrow> bool" where
  "scan_inv i s =
     (let maxs = idx_maxs (out s); mins = idx_mins (out s); ev = splice maxs mins
      in sorted_wrt (<) ev \<and>
         (if seeking_max s
          then length maxs = length mins \<and>
               (case running_max s of
                  None \<Rightarrow> ev = []
                | Some (mx, p) \<Rightarrow> p < i \<and> (\<forall>x\<in>set ev. x < p))
          else length maxs = Suc (length mins) \<and>
               (case running_min s of
                  None \<Rightarrow> False
                | Some (mn, q) \<Rightarrow> q < i \<and> (\<forall>x\<in>set ev. x < q))))"

section \<open>Evaluation on concrete signals\<close>

lemmas scan_eval = scan_step_def update_max_def update_min_def emit_max_def emit_min_def
  gt_def scan_init_def no_peaks_def PeakDetection_def Let_def

lemmas construct_eval = construct_def compute_def resolve_def bind_def getitem_def
  Peaks_params_descriptors_def PeaksInterval_params_descriptors_def

lemmas amplitude_defs = PeaksMax_algorithm_def PeaksMin_algorithm_def
  PeaksMean_algorithm_def PeaksNum_algorithm_def PeaksMax_algorithm_with_def
  PeaksMin_algorithm_with_def PeaksMean_algorithm_with_def PeaksNum_algorithm_with_def

lemma nanmean_single: "nanmean [Fin (- 5)] = Inr (Fin (- 5))"
  by code_simp

lemma detection_scenario_1:
  "PeakDetection (3/2)
     \<lparr>samples = [Fin 0, Fin 2, Fin 0, Fin 3, Fin 0, Fin 5, Fin 0, Fin 1, Fin 0],
      sampling_freq = f\<rparr>
   = Inr \<lparr>idx_maxs = [1, 3, 5], idx_mins = [2, 4],
          val_maxs = [Fin 2, Fin 3, Fin 5], val_mins = [Fin 0, Fin 0]\<rparr>"
  by (simp add: scan_eval)

lemma detection_flat:
  "0 < d \<Longrightarrow>
   PeakDetection d \<lparr>samples = [Fin 1, Fin 1, Fin 1, Fin 1, Fin 1], sampling_freq = f\<rparr>
   = Inr no_peaks"
  by (simp add: scan_eval)

lemma detection_two_peaks:
  "PeakDetection 1 \<lparr>samples = [Fin 5, Fin 0, Fin 7, Fin 0], sampling_freq = 1\<rparr>
   = Inr \<lparr>idx_maxs = [0, 2], idx_mins = [1], val_maxs = [Fin 5, Fin 7], val_mins = [Fin 0]\<rparr>"
  by (simp add: scan_eval)

lemma selection_two_peaks:
  "PeakSelection [0, 2] 1 1 \<lparr>samples = [Fin 5, Fin 0, Fin 7, Fin 0], sampling_freq = 1\<rparr>
   = ([1], [3])"
  by (simp add: PeakSelection_def List.map_filter_def select_one_def to_samples_def Let_def
      numeral_2_eq_2 numeral_3_eq_3)

section \<open>The concrete scenarios\<close>

text \<open>
  Claim C3, as the specification states it, has the minima of the signal
  \<open>[0, 2, 0, 3, 0, 5, 0, 1, 0]\<close> with \<open>delta = 1.5\<close> at the indices \<open>[0, 2, 4]\<close>, possibly
  with \<open>6\<close>. The scan starts by seeking a maximum, so no minimum is emitted before the
  first maximum: the minima are at \<open>[2, 4]\<close>, which is neither of the two sequences.
\<close>

theorem scenario_1_minima_counterexample:
  "PeakDetection (3/2)
     \<lparr>samples = [Fin 0, Fin 2, Fin 0, Fin 3, Fin 0, Fin 5, Fin 0, Fin 1, Fin 0],
      sampling_freq = 1\<rparr>
   = Inr \<lparr>idx_maxs = [1, 3, 5], idx_mins = [2, 4],
          val_maxs = [Fin 2, Fin 3, Fin 5], val_mins = [Fin 0, Fin 0]\<rparr>
   \<and> [2, 4] \<noteq> [0, 2, 4::nat] \<and> [2, 4] \<noteq> [0, 2, 4, 6::nat]"
  by (simp add: detection_scenario_1)

text \<open>
  Claim C3, amended: on the signal \<open>[0, 2, 0, 3, 0, 5, 0, 1, 0]\<close> with \<open>delta = 1.5\<close>
  the detector emits the maxima at the indices \<open>[1, 3, 5]\<close> with the values
  \<open>[2, 3, 5]\<close> and the minima at the indices \<open>[2, 4]\<close> with the values \<open>[0, 0]\<close>;
  \<^verbatim>\<open>PeaksNum\<close> constructed with \<open>delta = 1.5\<close> returns 3 on this signal and
  \<^verbatim>\<open>PeaksMax\<close> returns 5, both without a warning.
\<close>

theorem scenario_1:
  "PeakDetection (3/2)
     \<lparr>samples = [Fin 0, Fin 2, Fin 0, Fin 3, Fin 0, Fin 5, Fin 0, Fin 1, Fin 0],
      sampling_freq = f\<rparr>
   = Inr \<lparr>idx_maxs = [1, 3, 5], idx_mins = [2, 4],
          val_maxs = [Fin 2, Fin 3, Fin 5], val_mins = [Fin 0, Fin 0]\<rparr>
   \<and> compute PeaksNum [''delta'' \<mapsto> 3/2]
       \<lparr>samples = [Fin 0, Fin 2, Fin 0, Fin 3, Fin 0, Fin 5, Fin 0, Fin 1, Fin 0],
        sampling_freq = f\<rparr> = Inr (Fin 3, [])
   \<and> compute PeaksMax [''delta'' \<mapsto> 3/2]
       \<lparr>samples = [Fin 0, Fin 2, Fin 0, Fin 3, Fin 0, Fin 5, Fin 0, Fin 1, Fin 0],
        sampling_freq = f\<rparr> = Inr (Fin 5, [])"
  by (simp add: construct_eval detection_scenario_1 amplitude_defs nanmax_def)

text \<open>
  Claim C7: on the flat signal \<open>[1, 1, 1, 1, 1]\<close> and for every \<open>delta > 0\<close> the
  detector returns four empty sequences, and \<^verbatim>\<open>PeaksMean\<close> constructed with that
  \<open>delta\<close> returns NaN with exactly one report, "No peak found", and no exception.
\<close>

theorem scenario_2:
  assumes "0 < d"
  shows "PeakDetection d
           \<lparr>samples = [Fin 1, Fin 1, Fin 1, Fin 1, Fin 1], sampling_freq = f\<rparr>
         = Inr \<lparr>idx_maxs = [], idx_mins = [], val_maxs = [], val_mins = []\<rparr>
       \<and> compute PeaksMean [''delta'' \<mapsto> d]
           \<lparr>samples = [Fin 1, Fin 1, Fin 1, Fin 1, Fin 1], sampling_freq = f\<rparr>
         = Inr (NaN, [''No peak found''])"
  using assms detection_flat[OF assms, of f]
  by (simp add: construct_eval amplitude_defs no_peaks_def)

theorem scenario_2_witness:
  "(0::real) < 1
   \<and> PeakDetection 1 \<lparr>samples = [Fin 1, Fin 1, Fin 1, Fin 1, Fin 1], sampling_freq = 1\<rparr>
     = Inr \<lparr>idx_maxs = [], idx_mins = [], val_maxs = [], val_mins = []\<rparr>
   \<and> compute PeaksMean [''delta'' \<mapsto> 1]
       \<lparr>samples = [Fin 1, Fin 1, Fin 1, Fin 1, Fin 1], sampling_freq = 1\<rparr>
     = Inr (NaN, [''No peak found''])"
  using scenario_2[of 1 1] by simp

section \<open>Defects of the interval indicators\<close>

text \<open>
  Claim C1 says that compute never raises and that the interval indicators run on the
  parameters \<open>delta\<close>, \<open>pre_max\<close>, \<open>post_max\<close> that their descriptors declare. The
  code of \<^verbatim>\<open>DurationMin\<close>, \<^verbatim>\<open>DurationMax\<close>, \<^verbatim>\<open>DurationMean\<close> and
  \<^verbatim>\<open>SlopeMin\<close> reads the key \<^verbatim>\<open>win_pre\<close>, which the resolved parameters never
  hold: on every signal the lookup raises KeyError before the signal is read.
\<close>

theorem interval_lookup_raises:
  "compute DurationMin [''delta'' \<mapsto> 1, ''pre_max'' \<mapsto> 1, ''post_max'' \<mapsto> 1] sig
     = Inl (KeyError ''win_pre'')
   \<and> compute DurationMax [''delta'' \<mapsto> 1, ''pre_max'' \<mapsto> 1, ''post_max'' \<mapsto> 1] sig
     = Inl (KeyError ''win_pre'')
   \<and> compute DurationMean [''delta'' \<mapsto> 1, ''pre_max'' \<mapsto> 1, ''post_max'' \<mapsto> 1] sig
     = Inl (KeyError ''win_pre'')
   \<and> compute SlopeMin [''delta'' \<mapsto> 1, ''pre_max'' \<mapsto> 1, ''post_max'' \<mapsto> 1] sig
     = Inl (KeyError ''win_pre'')"
  by (simp add: construct_eval DurationMin_algorithm_def DurationMax_algorithm_def
      DurationMean_algorithm_def SlopeMin_algorithm_def)

text \<open>
  Claim C4 says that every slope pairs a start with the peak of the same interval. The
  slope classes pass the whole \<^verbatim>\<open>idx_maxs\<close> as the peaks, so after a dropped peak
  the pairs are shifted. On the signal \<open>[5, 0, 7, 0]\<close> sampled at 1 Hz, with
  \<open>delta = 1\<close> and windows of one second, the peaks are at 0 and 2; the peak at 0 has an
  empty window before it and is dropped; the one interval left starts at 1 and belongs
  to the peak at 2, whose slope is \<open>(7 - 0) / (2 - 1) = 7\<close>. The code pairs the start 1
  with the peak 0 and returns \<open>(5 - 0) / (0 - 1) = - 5\<close>.
\<close>

theorem slope_pairs_dropped_peak:
  "PeakDetection 1 \<lparr>samples = [Fin 5, Fin 0, Fin 7, Fin 0], sampling_freq = 1\<rparr>
   = Inr \<lparr>idx_maxs = [0, 2], idx_mins = [1], val_maxs = [Fin 5, Fin 7], val_mins = [Fin 0]\<rparr>
   \<and> PeakSelection [0, 2] 1 1 \<lparr>samples = [Fin 5, Fin 0, Fin 7, Fin 0], sampling_freq = 1\<rparr>
     = ([1], [3])
   \<and> Slopes [1] [2] \<lparr>samples = [Fin 5, Fin 0, Fin 7, Fin 0], sampling_freq = 1\<rparr>
     = Inr [Fin 7]
   \<and> Slopes [1] [0, 2] \<lparr>samples = [Fin 5, Fin 0, Fin 7, Fin 0], sampling_freq = 1\<rparr>
     = Inr [Fin (- 5)]
   \<and> compute SlopeMean [''delta'' \<mapsto> 1, ''pre_max'' \<mapsto> 1, ''post_max'' \<mapsto> 1]
       \<lparr>samples = [Fin 5, Fin 0, Fin 7, Fin 0], sampling_freq = 1\<rparr> = Inr (Fin (- 5), [])
   \<and> compute SlopeMax [''delta'' \<mapsto> 1, ''pre_max'' \<mapsto> 1, ''post_max'' \<mapsto> 1]
       \<lparr>samples = [Fin 5, Fin 0, Fin 7, Fin 0], sampling_freq = 1\<rparr> = Inr (Fin (- 5), [])"
  by (simp add: construct_eval detection_two_peaks selection_two_peaks
      SlopeMean_algorithm_def SlopeMax_algorithm_def Slopes_def slope_one_def
      sample_at_def time_of_def nanmean_single nanmax_def)

section \<open>The index sequences of the detector\<close>

lemma splice_snoc_left:
  "length xs = length ys \<Longrightarrow> splice (xs @ [x]) ys = splice xs ys @ [x]"
  by (induction xs ys rule: list_induct2) auto

lemma splice_snoc_right:
  "length xs = Suc (length ys) \<Longrightarrow> splice xs (ys @ [y]) = splice xs ys @ [y]"
proof (induction ys arbitrary: xs)
  case Nil
  then show ?case by (cases xs) auto
next
  case (Cons b ys)
  then obtain a xs' where "xs = a # xs'" "length xs' = Suc (length ys)"
    by (cases xs) auto
  with Cons.IH[of xs'] show ?case by simp
qed

lemma scan_inv_init: "scan_inv 0 scan_init"
  by (simp add: scan_inv_def scan_init_def no_peaks_def)

lemma lt_self_minus: "0 < delta \<Longrightarrow> \<not> lt v (fsub v (Fin delta))"
  by (cases v) auto

lemma lt_self_plus: "0 < delta \<Longrightarrow> \<not> lt (fadd v (Fin delta)) v"
  by (cases v) auto

lemma scan_inv_step:
  assumes d: "0 < delta" and inv: "scan_inv i s"
  shows "scan_inv (Suc i) (scan_step delta i v s)"
proof (cases "seeking_max s")
  case True
  with inv d show ?thesis
    by (auto simp: scan_inv_def scan_step_def Let_def update_max_def update_min_def emit_max_def gt_def
        splice_snoc_left sorted_wrt_append lt_self_minus
        split: option.splits npfloat.splits if_splits intro: less_trans)
next
  case False
  with inv d show ?thesis
    by (auto simp: scan_inv_def scan_step_def Let_def update_max_def update_min_def emit_min_def gt_def
        splice_snoc_right sorted_wrt_append lt_self_plus
        split: option.splits npfloat.splits if_splits intro: less_trans)
qed

lemma scan_inv_scan:
  "0 < delta \<Longrightarrow> scan_inv i s \<Longrightarrow> scan_inv (i + length vs) (scan delta i vs s)"
proof (induction vs arbitrary: i s)
  case Nil
  then show ?case by simp
next
  case (Cons v vs)
  from Cons.IH[OF Cons.prems(1) scan_inv_step[OF Cons.prems(1) Cons.prems(2), of v]]
  show ?case by simp
qed

lemma splice_nth_even:
  "k < length xs \<Longrightarrow> k \<le> length ys \<Longrightarrow> splice xs ys ! (2 * k) = xs ! k"
proof (induction k arbitrary: xs ys)
  case 0
  then show ?case by (cases xs) auto
next
  case (Suc k)
  then obtain a xs' b ys' where "xs = a # xs'" "ys = b # ys'"
    by (cases xs; cases ys) auto
  with Suc show ?case by simp
qed

lemma splice_nth_odd:
  "k < length ys \<Longrightarrow> k < length xs \<Longrightarrow> splice xs ys ! Suc (2 * k) = ys ! k"
proof (induction k arbitrary: xs ys)
  case 0
  then show ?case by (cases xs; cases ys) auto
next
  case (Suc k)
  then obtain a xs' b ys' where "xs = a # xs'" "ys = b # ys'"
    by (cases xs; cases ys) auto
  with Suc show ?case by simp
qed

lemma sorted_splice_interleave:
  assumes s: "sorted_wrt (<) (splice xs ys)"
    and l: "length ys \<le> length xs" "length xs \<le> Suc (length ys)"
  shows "sorted_wrt (<) xs" "sorted_wrt (<) ys"
    "\<forall>k<length ys. xs ! k < ys ! k \<and> (Suc k < length xs \<longrightarrow> ys ! k < xs ! Suc k)"
proof -
  have nth: "\<And>a b. a < b \<Longrightarrow> b < length xs + length ys \<Longrightarrow> splice xs ys ! a < splice xs ys ! b"
    using s by (simp add: sorted_wrt_iff_nth_less)
  show "sorted_wrt (<) xs"
    unfolding sorted_wrt_iff_nth_less
  proof (intro allI impI)
    fix a b assume ab: "a < b" "b < length xs"
    then have "splice xs ys ! (2 * a) < splice xs ys ! (2 * b)"
      using l by (intro nth) auto
    then show "xs ! a < xs ! b"
      using ab l by (simp add: splice_nth_even)
  qed
  show "sorted_wrt (<) ys"
    unfolding sorted_wrt_iff_nth_less
  proof (intro allI impI)
    fix a b assume ab: "a < b" "b < length ys"
    then have "splice xs ys ! Suc (2 * a) < splice xs ys ! Suc (2 * b)"
      using l by (intro nth) auto
    then show "ys ! a < ys ! b"
      using ab l by (simp add: splice_nth_odd)
  qed
  show "\<forall>k<length ys. xs ! k < ys ! k \<and> (Suc k < length xs \<longrightarrow> ys ! k < xs ! Suc k)"
  proof (intro allI impI conjI)
    fix k assume k: "k < length ys"
    then have "splice xs ys ! (2 * k) < splice xs ys ! Suc (2 * k)"
      using l by (intro nth) auto
    then show "xs ! k < ys ! k"
      using k l by (simp add: splice_nth_even splice_nth_odd)
  next
    fix k assume k: "k < length ys" "Suc k < length xs"
    then have "splice xs ys ! Suc (2 * k) < splice xs ys ! (2 * Suc k)"
      using l by (intro nth) auto
    then show "ys ! k < xs ! Suc k"
      using k l by (simp add: splice_nth_even splice_nth_odd del: mult_Suc_right)
  qed
qed

lemma scan_inv_lengths:
  "scan_inv i s \<Longrightarrow> length (idx_mins (out s)) \<le> length (idx_maxs (out s))
     \<and> length (idx_maxs (out s)) \<le> Suc (length (idx_mins (out s)))
     \<and> sorted_wrt (<) (splice (idx_maxs (out s)) (idx_mins (out s)))"
  by (auto simp: scan_inv_def Let_def split: if_splits)

text \<open>
  Claim C6: for every \<open>delta > 0\<close> and every signal the detector returns, and its
  index sequences \<open>idx_maxs\<close> and \<open>idx_mins\<close> are each strictly increasing, there
  are as many maxima as minima or one more (so the lengths differ by at most 1), and
  the two interleave: the \<open>k\<close>-th maximum is before the \<open>k\<close>-th minimum, which is
  before the next maximum when there is one.
\<close>

theorem detector_indices_interleave:
  assumes "0 < delta"
  shows "\<exists>ps. PeakDetection delta sig = Inr ps
     \<and> sorted_wrt (<) (idx_maxs ps) \<and> sorted_wrt (<) (idx_mins ps)
     \<and> length (idx_mins ps) \<le> length (idx_maxs ps)
     \<and> length (idx_maxs ps) \<le> Suc (length (idx_mins ps))
     \<and> (\<forall>k<length (idx_mins ps). idx_maxs ps ! k < idx_mins ps ! k
           \<and> (Suc k < length (idx_maxs ps) \<longrightarrow> idx_mins ps ! k < idx_maxs ps ! Suc k))"
proof (cases "length (samples sig) < 2")
  case True
  with assms show ?thesis by (simp add: PeakDetection_def no_peaks_def)
next
  case False
  let ?s = "scan delta 0 (samples sig) scan_init"
  have pd: "PeakDetection delta sig = Inr (out ?s)"
    using assms False by (simp add: PeakDetection_def)
  have "scan_inv (0 + length (samples sig)) ?s"
    by (rule scan_inv_scan[OF assms scan_inv_init])
  from scan_inv_lengths[OF this]
  have l: "length (idx_mins (out ?s)) \<le> length (idx_maxs (out ?s))"
      "length (idx_maxs (out ?s)) \<le> Suc (length (idx_mins (out ?s)))"
    and s: "sorted_wrt (<) (splice (idx_maxs (out ?s)) (idx_mins (out ?s)))"
    by auto
  from sorted_splice_interleave[OF s l] l pd show ?thesis by simp
qed

theorem detector_indices_interleave_witness:
  "(0::real) < 3/2
   \<and> PeakDetection (3/2)
       \<lparr>samples = [Fin 0, Fin 2, Fin 0, Fin 3, Fin 0, Fin 5, Fin 0, Fin 1, Fin 0],
        sampling_freq = 1\<rparr>
     = Inr \<lparr>idx_maxs = [1, 3, 5], idx_mins = [2, 4],
            val_maxs = [Fin 2, Fin 3, Fin 5], val_mins = [Fin 0, Fin 0]\<rparr>
   \<and> sorted_wrt (<) [1, 3, 5::nat] \<and> sorted_wrt (<) [2, 4::nat]
   \<and> length [2, 4::nat] \<le> length [1, 3, 5::nat]
   \<and> length [1, 3, 5::nat] \<le> Suc (length [2, 4::nat])
   \<and> [1, 3, 5::nat] ! 0 < [2, 4] ! 0 \<and> [2, 4::nat] ! 0 < [1, 3, 5] ! 1
   \<and> [1, 3, 5::nat] ! 1 < [2, 4] ! 1 \<and> [2, 4::nat] ! 1 < [1, 3, 5] ! 2"
  using detector_indices_interleave[of "3/2"
      "\<lparr>samples = [Fin 0, Fin 2, Fin 0, Fin 3, Fin 0, Fin 5, Fin 0, Fin 1, Fin 0], sampling_freq = 1\<rparr>"]
  by (simp add: detection_scenario_1)

section \<open>No data: NaN and a warning\<close>

lemma scan_step_lengths:
  "length (idx_maxs (out s)) = length (val_maxs (out s)) \<Longrightarrow>
   length (idx_maxs (out (scan_step delta i v s))) = length (val_maxs (out (scan_step delta i v s)))"
  by (auto simp: scan_step_def Let_def emit_max_def emit_min_def split: option.splits)

lemma scan_lengths:
  "length (idx_maxs (out s)) = length (val_maxs (out s)) \<Longrightarrow>
   length (idx_maxs (out (scan delta i vs s))) = length (val_maxs (out (scan delta i vs s)))"
  by (induction vs arbitrary: i s) (auto simp: scan_step_lengths)

lemma detection_lengths:
  "PeakDetection delta sig = Inr ps \<Longrightarrow> length (idx_maxs ps) = length (val_maxs ps)"
  using scan_lengths[of scan_init delta 0 "samples sig"]
  by (auto simp: PeakDetection_def no_peaks_def scan_init_def split: if_splits)

lemma detection_positive: "PeakDetection delta sig = Inr ps \<Longrightarrow> 0 < delta"
  by (auto simp: PeakDetection_def split: if_splits)

lemma construct_amplitude:
  assumes "kind \<in> {PeaksMax, PeaksMin, PeaksMean, PeaksNum}" "kwargs ''delta'' = Some delta"
  shows "construct kind kwargs =
     (if 0 < delta then Inr [''delta'' \<mapsto> delta] else Inl (ParameterError ''delta''))"
  using assms by (auto simp: construct_eval)

text \<open>
  Claim C2, as the specification states it, has \<^verbatim>\<open>PeaksNum\<close> return 0 with a warning
  when no peak is detected. The class guards the empty case like its siblings and
  returns NaN: on the flat signal \<open>[1, 1, 1, 1, 1]\<close> with \<open>delta = 1\<close> detection gives
  an empty \<open>val_maxs\<close> and \<^verbatim>\<open>PeaksNum\<close> returns NaN, which is not 0.
\<close>

theorem count_zero_counterexample:
  "PeakDetection 1 \<lparr>samples = [Fin 1, Fin 1, Fin 1, Fin 1, Fin 1], sampling_freq = 1\<rparr>
     = Inr \<lparr>idx_maxs = [], idx_mins = [], val_maxs = [], val_mins = []\<rparr>
   \<and> compute PeaksNum [''delta'' \<mapsto> 1]
       \<lparr>samples = [Fin 1, Fin 1, Fin 1, Fin 1, Fin 1], sampling_freq = 1\<rparr>
     = Inr (NaN, [''No peak found''])
   \<and> NaN \<noteq> Fin 0"
  by (simp add: construct_eval amplitude_defs scan_eval)

text \<open>
  Claim C2, amended: whenever peak detection with \<open>delta\<close> returns an empty
  \<open>val_maxs\<close> on a signal, \<^verbatim>\<open>PeaksMax\<close>, \<^verbatim>\<open>PeaksMin\<close>, \<^verbatim>\<open>PeaksMean\<close> and
  \<^verbatim>\<open>PeaksNum\<close> constructed with that \<open>delta\<close> all return NaN with the one warning
  "No peak found".
\<close>

theorem no_peaks_gives_nan:
  assumes "PeakDetection delta sig = Inr ps" and "val_maxs ps = []"
    and "kwargs ''delta'' = Some delta"
  shows "compute PeaksMax kwargs sig = Inr (NaN, [''No peak found''])
       \<and> compute PeaksMin kwargs sig = Inr (NaN, [''No peak found''])
       \<and> compute PeaksMean kwargs sig = Inr (NaN, [''No peak found''])
       \<and> compute PeaksNum kwargs sig = Inr (NaN, [''No peak found''])"
proof -
  have e: "length (idx_maxs ps) = 0"
    using detection_lengths[OF assms(1)] assms(2) by simp
  have d: "0 < delta" by (rule detection_positive[OF assms(1)])
  have c: "\<And>kind. kind \<in> {PeaksMax, PeaksMin, PeaksMean, PeaksNum} \<Longrightarrow> construct kind kwargs = Inr [''delta'' \<mapsto> delta]"
    using construct_amplitude[of _ kwargs delta] assms(3) d by simp
  show ?thesis
    using assms(1) e
    by (simp add: compute_def c bind_def getitem_def amplitude_defs)
qed

theorem no_peaks_gives_nan_witness:
  "PeakDetection 1 \<lparr>samples = [Fin 1, Fin 1, Fin 1, Fin 1, Fin 1], sampling_freq = 1\<rparr>
     = Inr no_peaks
   \<and> val_maxs no_peaks = [] \<and> [''delta'' \<mapsto> 1::real] ''delta'' = Some 1
   \<and> compute PeaksMax [''delta'' \<mapsto> 1]
        \<lparr>samples = [Fin 1, Fin 1, Fin 1, Fin 1, Fin 1], sampling_freq = 1\<rparr>
       = Inr (NaN, [''No peak found''])
   \<and> compute PeaksNum [''delta'' \<mapsto> 1]
        \<lparr>samples = [Fin 1, Fin 1, Fin 1, Fin 1, Fin 1], sampling_freq = 1\<rparr>
       = Inr (NaN, [''No peak found''])"
proof -
  have h1: "PeakDetection 1 \<lparr>samples = [Fin 1, Fin 1, Fin 1, Fin 1, Fin 1], sampling_freq = 1\<rparr>
     = Inr no_peaks" by (rule detection_flat) simp
  have h2: "val_maxs no_peaks = []" by (simp add: no_peaks_def)
  have h3: "[''delta'' \<mapsto> 1::real] ''delta'' = Some 1" by simp
  from no_peaks_gives_nan[of 1 _ no_peaks "[''delta'' \<mapsto> 1]", OF h1 h2 h3] h1 h2 h3
  show ?thesis by simp
qed

text \<open>
  Claim C5: for every \<open>delta \<le> 0\<close> supplied to \<^verbatim>\<open>PeaksMax\<close>, \<^verbatim>\<open>PeaksMin\<close>,
  \<^verbatim>\<open>PeaksMean\<close> or \<^verbatim>\<open>PeaksNum\<close>, construction fails with ParameterError: the
  predicate \<open>x > 0\<close> of the descriptor of \<open>delta\<close> rejects the value when the
  parameters are resolved. Construction does not take the signal, and compute on any
  signal gives the same error without running the algorithm.
\<close>

theorem nonpositive_delta_rejected:
  assumes "delta \<le> 0" and "kwargs ''delta'' = Some delta"
    and "kind \<in> {PeaksMax, PeaksMin, PeaksMean, PeaksNum}"
  shows "construct kind kwargs = Inl (ParameterError ''delta'')
       \<and> compute kind kwargs sig = Inl (ParameterError ''delta'')"
  using assms construct_amplitude[of kind kwargs delta]
  by (simp add: compute_def bind_def)

theorem nonpositive_delta_rejected_witness:
  "(0::real) \<le> 0 \<and> [''delta'' \<mapsto> 0::real] ''delta'' = Some 0
   \<and> PeaksNum \<in> {PeaksMax, PeaksMin, PeaksMean, PeaksNum}
   \<and> construct PeaksNum [''delta'' \<mapsto> 0] = Inl (ParameterError ''delta'')
   \<and> compute PeaksNum [''delta'' \<mapsto> 0] \<lparr>samples = [Fin 0, Fin 2, Fin 0], sampling_freq = 1\<rparr>
       = Inl (ParameterError ''delta'')"
  using nonpositive_delta_rejected[of 0 "[''delta'' \<mapsto> 0]" PeaksNum "\<lparr>samples = [Fin 0, Fin 2, Fin 0], sampling_freq = 1\<rparr>"]
  by simp

section \<open>The reductions ignore NaN\<close>

lemma set_non_nan: "set (non_nan xs) = {x. Fin x \<in> set xs}"
  by (induction xs rule: non_nan.induct) auto

lemma length_non_nan: "length (non_nan xs) = length (filter (\<lambda>v. v \<noteq> NaN) xs)"
  by (induction xs rule: non_nan.induct) auto

lemma fold_max_Max: "fold max ys (y::real) = Max (set (y # ys))"
  using Max.set_eq_fold[of y ys] by simp

lemma fold_min_Min: "fold min ys (y::real) = Min (set (y # ys))"
  using Min.set_eq_fold[of y ys] by simp

lemma non_nan_nonempty: "non_nan xs \<noteq> [] \<Longrightarrow> xs \<noteq> []"
  by auto

lemma nanmax_some:
  assumes "non_nan xs \<noteq> []"
  shows "nanmax xs = Inr (Fin (Max {x. Fin x \<in> set xs}))"
proof -
  obtain y ys where e: "non_nan xs = y # ys" using assms by (cases "non_nan xs") auto
  have "fold max ys y = Max {x. Fin x \<in> set xs}"
    using fold_max_Max[of ys y] set_non_nan[of xs] e by simp
  then show ?thesis using e non_nan_nonempty[OF assms] by (simp add: nanmax_def)
qed

lemma nanmin_some:
  assumes "non_nan xs \<noteq> []"
  shows "nanmin xs = Inr (Fin (Min {x. Fin x \<in> set xs}))"
proof -
  obtain y ys where e: "non_nan xs = y # ys" using assms by (cases "non_nan xs") auto
  have "fold min ys y = Min {x. Fin x \<in> set xs}"
    using fold_min_Min[of ys y] set_non_nan[of xs] e by simp
  then show ?thesis using e non_nan_nonempty[OF assms] by (simp add: nanmin_def)
qed

lemma nanmean_some:
  assumes "non_nan xs \<noteq> []"
  shows "nanmean xs =
     Inr (Fin (rnd (pairwise_sum (map (\<lambda>v. case v of NaN \<Rightarrow> 0 | Fin x \<Rightarrow> x) xs)
                    / real (length (filter (\<lambda>v. v \<noteq> NaN) xs)))))"
proof -
  have "nan_to_zero = (\<lambda>v. case v of NaN \<Rightarrow> 0 | Fin x \<Rightarrow> x)"
    by (rule ext) (simp add: nan_to_zero_def)
  then show ?thesis
    using assms by (simp add: nanmean_def Let_def length_non_nan[symmetric])
qed

lemma nan_reductions_none:
  assumes "xs \<noteq> []" "non_nan xs = []"
  shows "nanmax xs = Inr NaN" "nanmin xs = Inr NaN" "nanmean xs = Inr NaN"
  using assms by (simp_all add: nanmax_def nanmin_def nanmean_def)

lemma nanmean_with_nan_entry:
  "nanmean [Fin 2, NaN, Fin 3, Fin 5] = Inr (Fin (7505999378950827 / 2251799813685248))"
  by code_simp

text \<open>
  Claim C9: whatever the detection tool returns, when the amplitudes \<open>val_maxs\<close> of
  the detected maxima (as many as there are indices in \<open>idx_maxs\<close>) hold at least one
  value that is not NaN, \<^verbatim>\<open>PeaksMax\<close> returns the maximum of the values that are not
  NaN and \<^verbatim>\<open>PeaksMin\<close> their minimum. \<^verbatim>\<open>PeaksMean\<close> returns their mean as numpy
  computes it in double precision: the NaN entries enter the sum as zeros and are not
  counted in the divisor, so they are left out, not propagated. The mean is stated for
  amplitudes whose sum cannot overflow.
\<close>

theorem nan_guarded_reductions:
  assumes "detection delta sig = Inr ps"
    and "length (idx_maxs ps) = length (val_maxs ps)"
    and "\<exists>x. Fin x \<in> set (val_maxs ps)"
  shows "PeaksMax_algorithm_with detection sig [''delta'' \<mapsto> delta]
           = Inr (Fin (Max {x. Fin x \<in> set (val_maxs ps)}), [])
       \<and> PeaksMin_algorithm_with detection sig [''delta'' \<mapsto> delta]
           = Inr (Fin (Min {x. Fin x \<in> set (val_maxs ps)}), [])
       \<and> (in_double_range (val_maxs ps) \<longrightarrow>
            PeaksMean_algorithm_with detection sig [''delta'' \<mapsto> delta]
              = Inr (Fin (rnd (pairwise_sum
                                 (map (\<lambda>v. case v of NaN \<Rightarrow> 0 | Fin x \<Rightarrow> x) (val_maxs ps))
                               / real (length (filter (\<lambda>v. v \<noteq> NaN) (val_maxs ps))))), []))"
proof -
  from assms(3) have "set (non_nan (val_maxs ps)) \<noteq> {}"
    by (auto simp: set_non_nan)
  then have ne: "non_nan (val_maxs ps) \<noteq> []" by auto
  then have "val_maxs ps \<noteq> []" by auto
  with assms(2) have l: "length (idx_maxs ps) \<noteq> 0" by simp
  show ?thesis
    using l assms(1)
    by (simp add: PeaksMax_algorithm_with_def PeaksMin_algorithm_with_def
        PeaksMean_algorithm_with_def bind_def getitem_def
        nanmax_some[OF ne] nanmin_some[OF ne] nanmean_some[OF ne])
qed

theorem nan_guarded_reductions_witness:
  "PeaksMax_algorithm_with
     (\<lambda>d s. Inr \<lparr>idx_maxs = [1, 3, 5, 7], idx_mins = [2, 4, 6],
                  val_maxs = [Fin 2, NaN, Fin 3, Fin 5], val_mins = [Fin 0, Fin 0, Fin 0]\<rparr>)
     \<lparr>samples = [], sampling_freq = 1\<rparr> [''delta'' \<mapsto> 1] = Inr (Fin 5, [])
   \<and> PeaksMin_algorithm_with
     (\<lambda>d s. Inr \<lparr>idx_maxs = [1, 3, 5, 7], idx_mins = [2, 4, 6],
                  val_maxs = [Fin 2, NaN, Fin 3, Fin 5], val_mins = [Fin 0, Fin 0, Fin 0]\<rparr>)
     \<lparr>samples = [], sampling_freq = 1\<rparr> [''delta'' \<mapsto> 1] = Inr (Fin 2, [])
   \<and> PeaksMean_algorithm_with
     (\<lambda>d s. Inr \<lparr>idx_maxs = [1, 3, 5, 7], idx_mins = [2, 4, 6],
                  val_maxs = [Fin 2, NaN, Fin 3, Fin 5], val_mins = [Fin 0, Fin 0, Fin 0]\<rparr>)
     \<lparr>samples = [], sampling_freq = 1\<rparr> [''delta'' \<mapsto> 1]
       = Inr (Fin (7505999378950827 / 2251799813685248), [])"
proof -
  let ?ps = "\<lparr>idx_maxs = [1, 3, 5, 7], idx_mins = [2, 4, 6],
                  val_maxs = [Fin 2, NaN, Fin 3, Fin 5], val_mins = [Fin 0, Fin 0, Fin 0]\<rparr>"
  let ?det = "\<lambda>(d::real) (s::signal). (Inr ?ps :: peakset result)"
  have h1: "?det 1 \<lparr>samples = [], sampling_freq = 1\<rparr> = Inr ?ps" by simp
  have h2: "length (idx_maxs ?ps) = length (val_maxs ?ps)" by simp
  have h3: "\<exists>x. Fin x \<in> set (val_maxs ?ps)" by auto
  have h4: "in_double_range (val_maxs ?ps)" by (simp add: in_double_range_def nan_to_zero_def)
  have s: "{x::real. x = 2 \<or> x = 3 \<or> x = 5} = {2, 3, 5}" by auto
  have m: "nanmean (val_maxs ?ps) = Inr (Fin (7505999378950827 / 2251799813685248))"
    using nanmean_with_nan_entry by simp
  have ne: "non_nan (val_maxs ?ps) \<noteq> []" by simp
  from nan_guarded_reductions[of ?det 1 "\<lparr>samples = [], sampling_freq = 1\<rparr>" ?ps, OF h1 h2 h3] h4
    m[unfolded nanmean_some[OF ne]]
  show ?thesis by (simp add: s)
qed

section \<open>Agreement of the amplitude indicators\<close>

lemma detection_three_tenths:
  "PeakDetection (1/16)
     \<lparr>samples = [Fin 0, Fin (3602879701896397 / 36028797018963968), Fin 0,
                 Fin (3602879701896397 / 36028797018963968), Fin 0,
                 Fin (3602879701896397 / 36028797018963968), Fin 0],
      sampling_freq = 1\<rparr>
   = Inr \<lparr>idx_maxs = [1, 3, 5], idx_mins = [2, 4],
          val_maxs = [Fin (3602879701896397 / 36028797018963968),
                      Fin (3602879701896397 / 36028797018963968),
                      Fin (3602879701896397 / 36028797018963968)],
          val_mins = [Fin 0, Fin 0]\<rparr>"
  by (simp add: scan_eval)

lemma nanmean_three_tenths:
  "nanmean [Fin (3602879701896397 / 36028797018963968),
            Fin (3602879701896397 / 36028797018963968),
            Fin (3602879701896397 / 36028797018963968)]
   = Inr (Fin (7205759403792795 / 72057594037927936))"
  by code_simp

text \<open>
  Claim C8, as the specification states it, orders the three results:
  \<^verbatim>\<open>PeaksMin\<close> \<open>\<le>\<close> \<^verbatim>\<open>PeaksMean\<close> \<open>\<le>\<close> \<^verbatim>\<open>PeaksMax\<close>. The mean is computed in double
  precision. On the signal \<open>[0, 0.1, 0, 0.1, 0, 0.1, 0]\<close> with \<open>delta = 0.0625\<close> (0.1
  is the double \<open>3602879701896397 / 2^55\<close>) the three peaks have the amplitude 0.1,
  which \<^verbatim>\<open>PeaksMax\<close> returns; their sum rounds to 0.30000000000000004 and
  \<^verbatim>\<open>PeaksMean\<close> returns 0.10000000000000002, which is above the maximum.
\<close>

theorem mean_above_max_counterexample:
  "compute PeaksMax [''delta'' \<mapsto> 1/16]
     \<lparr>samples = [Fin 0, Fin (3602879701896397 / 36028797018963968), Fin 0,
                 Fin (3602879701896397 / 36028797018963968), Fin 0,
                 Fin (3602879701896397 / 36028797018963968), Fin 0],
      sampling_freq = 1\<rparr>
     = Inr (Fin (3602879701896397 / 36028797018963968), [])
   \<and> compute PeaksMean [''delta'' \<mapsto> 1/16]
     \<lparr>samples = [Fin 0, Fin (3602879701896397 / 36028797018963968), Fin 0,
                 Fin (3602879701896397 / 36028797018963968), Fin 0,
                 Fin (3602879701896397 / 36028797018963968), Fin 0],
      sampling_freq = 1\<rparr>
     = Inr (Fin (7205759403792795 / 72057594037927936), [])
   \<and> \<not> (7205759403792795 / 72057594037927936 \<le> (3602879701896397 / 36028797018963968 :: real))"
  by (simp add: construct_eval detection_three_tenths amplitude_defs nanmax_def
      nanmean_three_tenths)

lemma amplitude_results:
  assumes "PeakDetection delta sig = Inr ps"
  shows "compute PeaksMax [''delta'' \<mapsto> delta] sig =
           (if val_maxs ps = [] then Inr (NaN, [''No peak found''])
            else bind (nanmax (val_maxs ps)) (\<lambda>r. Inr (r, [])))"
    and "compute PeaksMin [''delta'' \<mapsto> delta] sig =
           (if val_maxs ps = [] then Inr (NaN, [''No peak found''])
            else bind (nanmin (val_maxs ps)) (\<lambda>r. Inr (r, [])))"
    and "compute PeaksMean [''delta'' \<mapsto> delta] sig =
           (if val_maxs ps = [] then Inr (NaN, [''No peak found''])
            else bind (nanmean (val_maxs ps)) (\<lambda>r. Inr (r, [])))"
  using assms detection_lengths[OF assms] detection_positive[OF assms]
  by (auto simp: construct_eval amplitude_defs)

lemma nanmean_is_fin:
  "non_nan xs \<noteq> [] \<Longrightarrow> \<exists>m. nanmean xs = Inr (Fin m)"
  by (simp add: nanmean_def Let_def)

text \<open>
  Claim C8, amended: for every signal and every \<open>delta > 0\<close>, \<^verbatim>\<open>PeaksMax\<close> returns
  NaN if and only if \<^verbatim>\<open>PeaksMin\<close> returns NaN, and then \<^verbatim>\<open>PeaksMean\<close> returns NaN
  too; when the sum of the detected amplitudes cannot overflow, \<^verbatim>\<open>PeaksMean\<close>
  returns NaN only if \<^verbatim>\<open>PeaksMax\<close> does; and when \<^verbatim>\<open>PeaksMax\<close> and
  \<^verbatim>\<open>PeaksMin\<close> are not NaN, \<^verbatim>\<open>PeaksMin\<close> \<open>\<le>\<close> \<^verbatim>\<open>PeaksMax\<close>. The place of the
  mean between the two is left out: it holds up to the rounding of the mean only.
\<close>

theorem amplitude_indicators_agree:
  assumes "0 < delta"
  shows "\<exists>ps mx mn av w1 w2 w3.
           PeakDetection delta sig = Inr ps
         \<and> compute PeaksMax [''delta'' \<mapsto> delta] sig = Inr (mx, w1)
         \<and> compute PeaksMin [''delta'' \<mapsto> delta] sig = Inr (mn, w2)
         \<and> compute PeaksMean [''delta'' \<mapsto> delta] sig = Inr (av, w3)
         \<and> (mx = NaN \<longleftrightarrow> mn = NaN) \<and> (mx = NaN \<longrightarrow> av = NaN)
         \<and> (in_double_range (val_maxs ps) \<longrightarrow> av = NaN \<longrightarrow> mx = NaN)
         \<and> (\<forall>x y. mx = Fin x \<and> mn = Fin y \<longrightarrow> y \<le> x)"
proof -
  obtain ps where pd: "PeakDetection delta sig = Inr ps"
    using assms by (cases "length (samples sig) < 2") (auto simp: PeakDetection_def)
  note r = amplitude_results[OF pd]
  show ?thesis
  proof (cases "val_maxs ps = []")
    case True
    then show ?thesis using pd by (simp add: r)
  next
    case False
    show ?thesis
    proof (cases "non_nan (val_maxs ps) = []")
      case True
      with False pd show ?thesis by (simp add: r nan_reductions_none bind_def)
    next
      case ne: False
      obtain m where m: "nanmean (val_maxs ps) = Inr (Fin m)"
        using nanmean_is_fin[OF ne] by blast
      have fin: "finite {x. Fin x \<in> set (val_maxs ps)}"
        using set_non_nan[of "val_maxs ps"] by (metis List.finite_set)
      have nonempty: "{x. Fin x \<in> set (val_maxs ps)} \<noteq> {}"
        using ne set_non_nan[of "val_maxs ps"] by (metis set_empty)
      obtain z where z: "z \<in> {x. Fin x \<in> set (val_maxs ps)}"
        using nonempty by blast
      have "Min {x. Fin x \<in> set (val_maxs ps)} \<le> z"
        using fin z by (rule Min_le)
      moreover have "z \<le> Max {x. Fin x \<in> set (val_maxs ps)}"
        using fin z by (rule Max_ge)
      ultimately
      have "Min {x. Fin x \<in> set (val_maxs ps)} \<le> Max {x. Fin x \<in> set (val_maxs ps)}"
        by simp
      with False pd show ?thesis
        by (simp add: r nanmax_some[OF ne] nanmin_some[OF ne] m bind_def)
    qed
  qed
qed

theorem amplitude_indicators_agree_witness:
  "(0::real) < 1/16
   \<and> in_double_range [Fin (3602879701896397 / 36028797018963968),
                      Fin (3602879701896397 / 36028797018963968),
                      Fin (3602879701896397 / 36028797018963968)]
   \<and> compute PeaksMax [''delta'' \<mapsto> 1/16]
     \<lparr>samples = [Fin 0, Fin (3602879701896397 / 36028797018963968), Fin 0,
                 Fin (3602879701896397 / 36028797018963968), Fin 0,
                 Fin (3602879701896397 / 36028797018963968), Fin 0],
      sampling_freq = 1\<rparr>
     = Inr (Fin (3602879701896397 / 36028797018963968), [])
   \<and> compute PeaksMin [''delta'' \<mapsto> 1/16]
     \<lparr>samples = [Fin 0, Fin (3602879701896397 / 36028797018963968), Fin 0,
                 Fin (3602879701896397 / 36028797018963968), Fin 0,
                 Fin (3602879701896397 / 36028797018963968), Fin 0],
      sampling_freq = 1\<rparr>
     = Inr (Fin (3602879701896397 / 36028797018963968), [])
   \<and> (3602879701896397 / 36028797018963968 :: real) \<le> 3602879701896397 / 36028797018963968"
proof -
  have r: "in_double_range [Fin (3602879701896397 / 36028797018963968),
                      Fin (3602879701896397 / 36028797018963968),
                      Fin (3602879701896397 / 36028797018963968)]"
    by (simp add: in_double_range_def nan_to_zero_def)
  from amplitude_indicators_agree[of "1/16"
     "\<lparr>samples = [Fin 0, Fin (3602879701896397 / 36028797018963968), Fin 0,
                 Fin (3602879701896397 / 36028797018963968), Fin 0,
                 Fin (3602879701896397 / 36028797018963968), Fin 0],
      sampling_freq = 1\<rparr>"] r
  show ?thesis
    by (simp add: construct_eval detection_three_tenths amplitude_defs nanmax_def nanmin_def)
qed

section \<open>Importing the package\<close>

lemma Files_star_import:
  "import_star \<lparr>names = Files_names, all_list = Some Files_all\<rparr>
     = Inl (AttributeError ''save_rr_data_series'')"
  by (simp add: import_star_def Files_names_def Files_all_def)

lemma isl_bind: "isl (bind m f) \<longleftrightarrow> isl m \<or> (\<exists>x. m = Inr x \<and> isl (f x))"
  by (cases m) (auto simp: bind_def)

text \<open>
  Claim C10: importing the package \<^verbatim>\<open>pyHRV\<close> always fails. \<^verbatim>\<open>Files.__all__\<close>
  lists \<^verbatim>\<open>save_rr_data_series\<close>, which \<^verbatim>\<open>Files.py\<close> never binds (it binds
  \<^verbatim>\<open>save_data_series\<close>), so whenever the statements before it succeed,
  \<^verbatim>\<open>from Files import *\<close> in \<^verbatim>\<open>pyHRV/__init__.py\<close> raises AttributeError; when
  one of them fails the import has failed already. Likewise \<^verbatim>\<open>GalaxyFilter.py\<close>
  imports \<^verbatim>\<open>load_rr\<close> from \<^verbatim>\<open>pyHRV.Files\<close>, which does not bind it, and its
  imports always fail.
\<close>

theorem package_import_fails:
  "isl (pyHRV_init prelude others)
   \<and> (prelude = Inr ()
       \<and> others ''Filters'' = Inr mFilters \<and> others ''PyHRVSettings'' = Inr mSettings
       \<and> others ''indexes'' = Inr mIndexes \<and> others ''windowing'' = Inr mWindowing
       \<and> others ''DataSeries'' = Inr mDs
       \<and> all_list mDs \<noteq> None \<and> all_list mFilters \<noteq> None \<and> all_list mIndexes \<noteq> None
       \<and> all_list mWindowing \<noteq> None \<and> \<not> isl (import_star mDs)
      \<longrightarrow> pyHRV_init prelude others = Inl (AttributeError ''save_rr_data_series''))
   \<and> ''save_rr_data_series'' \<in> set Files_all
   \<and> ''save_rr_data_series'' \<notin> set Files_names
   \<and> ''save_data_series'' \<in> set Files_names
   \<and> ''load_rr'' \<notin> set Files_names
   \<and> import_from \<lparr>names = Files_names, all_list = Some Files_all\<rparr>
        [''load_rr'', ''save_data_series''] = Inl (ImportError ''load_rr'')
   \<and> isl (GalaxyFilter_imports prelude others)"
proof -
  have a: "isl (pyHRV_init prelude others)"
    by (auto simp: pyHRV_init_def isl_bind Files_body_def Files_star_import bind_def
        split: sum.splits)
  have b: "prelude = Inr ()
       \<and> others ''Filters'' = Inr mFilters \<and> others ''PyHRVSettings'' = Inr mSettings
       \<and> others ''indexes'' = Inr mIndexes \<and> others ''windowing'' = Inr mWindowing
       \<and> others ''DataSeries'' = Inr mDs
       \<and> all_list mDs \<noteq> None \<and> all_list mFilters \<noteq> None \<and> all_list mIndexes \<noteq> None
       \<and> all_list mWindowing \<noteq> None \<and> \<not> isl (import_star mDs)
      \<longrightarrow> pyHRV_init prelude others = Inl (AttributeError ''save_rr_data_series'')"
    by (auto simp: pyHRV_init_def Files_body_def Files_star_import bind_def getattr_all_def
        split: sum.splits)
  have c: "isl (GalaxyFilter_imports prelude others)"
    using a by (simp add: GalaxyFilter_imports_def isl_bind)
  show ?thesis
    using a b c by (simp add: import_from_def Files_names_def Files_all_def)
qed

theorem package_import_fails_witness:
  "pyHRV_init (Inr ()) (\<lambda>n. Inr \<lparr>names = [''__all__''], all_list = Some []\<rparr>)
     = Inl (AttributeError ''save_rr_data_series'')"
  using package_import_fails[of "Inr ()" "\<lambda>n. Inr \<lparr>names = [''__all__''], all_list = Some []\<rparr>"
      "\<lparr>names = [''__all__''], all_list = Some []\<rparr>" "\<lparr>names = [''__all__''], all_list = Some []\<rparr>"
      "\<lparr>names = [''__all__''], all_list = Some []\<rparr>" "\<lparr>names = [''__all__''], all_list = Some []\<rparr>"
      "\<lparr>names = [''__all__''], all_list = Some []\<rparr>"]
  by (simp add: import_star_def)

end
